theory Spec2Isabelle
  imports Main "HOL-Library.Word"
begin

section \<open>The NDB dictionary API as seen from \<open>sql/ndb_ndbapi_util.cc\<close>\<close>

text \<open>
  The file under verification is glue over the NdbDictionary classes. Their declarations
  are not part of the verified source, so every class is a record of what its getters
  return, and every theorem below holds for all values of these records.
  A pointer that may be null is an \<open>option\<close>; a C string and a \<open>std::string\<close> are a
  \<open>string\<close> (a list of bytes, compared byte by byte).
\<close>

type_synonym byte = "8 word"

text \<open>
  The ways a call can end without a result: a failed \<open>assert\<close>, a member access through a
  null pointer, and a \<open>memcpy\<close> that leaves the object it was given.
\<close>

datatype fault = AssertionFailed | NullDereference | OutOfBounds

text \<open>\<open>p->member\<close>: defined only for a pointer that is not null.\<close>

fun deref :: "'a option \<Rightarrow> fault + 'a" where
  "deref None = Inl NullDereference"
| "deref (Some x) = Inr x"

text \<open>
  \<open>NdbDictionary::Column::Type\<close>: the three enumerators this file names, and one
  constructor standing for every other enumerator (by its number).
\<close>

datatype ColumnType = Bigunsigned | Blob | Text | OtherColumnType nat

text \<open>\<open>NdbDictionary::Column::ArrayType\<close>, the storage kind of a column.\<close>

datatype ArrayType = ArrayTypeFixed | ArrayTypeShortVar | ArrayTypeMediumVar

record Column =
  Column_getType :: ColumnType
  Column_getLength :: int
  Column_getArrayType :: ArrayType
  Column_getNullable :: bool
  Column_getPrimaryKey :: bool
  Column_getAutoIncrement :: bool
  Column_getDefaultValue :: "byte list option"

text \<open>
  \<open>NdbDictionary::Table\<close>. \<open>getColumn(int)\<close> and \<open>getColumn(const char*)\<close> return a null
  pointer where the table has no such column. \<open>getTablespace(&id)\<close> returns whether the
  table carries a tablespace id and stores it: \<open>Some id\<close> or \<open>None\<close>.
  \<open>getExtraMetadata(version, &data, &length)\<close> returns a result code and stores the
  version and the unpacked bytes.
\<close>

record Table =
  Table_getColumn :: "int \<Rightarrow> Column option"
  Table_getColumnByName :: "string \<Rightarrow> Column option"
  Table_getNoOfPrimaryKeys :: int
  Table_getTablespaceName :: string
  Table_getTablespace :: "32 word option"
  Table_getExtraMetadata :: "int \<times> 32 word \<times> byte list"

text \<open>\<open>NdbDictionary::Object::State\<close>, the lifecycle state of a listed object.\<close>

datatype State =
    StateUndefined
  | StateOffline
  | StateBuilding
  | StateDropping
  | StateOnline
  | ObsoleteStateBackup
  | StateBroken

text \<open>\<open>NdbDictionary::Object::Type\<close>: the object kinds this file lists.\<close>

datatype ObjectType = UserTable | Tablespace | LogfileGroup | Datafile | Undofile

text \<open>\<open>NdbDictionary::Dictionary::List::Element\<close>: the fields this file reads.\<close>

record Element =
  elmt_name :: string
  elmt_database :: string
  elmt_state :: State

record Tablespace =
  Tablespace_getName :: string

record Undofile =
  Undofile_getLogfileGroup :: string

record Datafile =
  Datafile_getTablespace :: string

text \<open>
  \<open>NdbDictionary::Dictionary\<close>, the handle of the dictionary service. The service is a
  black box: the record holds its answers. \<open>service_listObjects\<close> gives the return code of
  \<open>listObjects\<close> and the list it fills; \<open>service_getTablespace\<close> gives the object returned
  for an id and the error code the handle reports afterwards; \<open>service_getUndofile\<close> and
  \<open>service_getDatafile\<close> give the object returned for a node and a file name.
  \<open>ndbError_code\<close> is the state of the handle: the code of \<open>getNdbError()\<close>.
\<close>

record Dictionary =
  ndbError_code :: int
  service_listObjects :: "ObjectType \<Rightarrow> int \<times> Element list"
  service_getTablespace :: "32 word \<Rightarrow> Tablespace \<times> int"
  service_getUndofile :: "32 word \<Rightarrow> string \<Rightarrow> Undofile"
  service_getDatafile :: "32 word \<Rightarrow> string \<Rightarrow> Datafile"

definition Dictionary_listObjects :: "Dictionary \<Rightarrow> ObjectType \<Rightarrow> int \<times> Element list" where
  "Dictionary_listObjects dict ty = service_listObjects dict ty"

definition Dictionary_getTablespace :: "Dictionary \<Rightarrow> 32 word \<Rightarrow> Tablespace \<times> Dictionary" where
  "Dictionary_getTablespace dict tablespace_id =
     (case service_getTablespace dict tablespace_id of
        (ts, code) \<Rightarrow> (ts, dict\<lparr>ndbError_code := code\<rparr>))"

definition Dictionary_getUndofile :: "Dictionary \<Rightarrow> 32 word \<Rightarrow> string \<Rightarrow> Undofile" where
  "Dictionary_getUndofile dict node path = service_getUndofile dict node path"

definition Dictionary_getDatafile :: "Dictionary \<Rightarrow> 32 word \<Rightarrow> string \<Rightarrow> Datafile" where
  "Dictionary_getDatafile dict node path = service_getDatafile dict node path"

text \<open>
  The predicates of \<open>sql/ndb_name_util.h\<close> on object names. Their patterns belong to that
  file; here they are parameters.
\<close>

record NameUtil =
  ndb_name_is_temp :: "string \<Rightarrow> bool"
  ndb_name_is_blob_prefix :: "string \<Rightarrow> bool"
  ndb_name_is_index_stat :: "string \<Rightarrow> bool"

section \<open>Table attribute inspectors\<close>

definition hidden_pk_name :: string where
  "hidden_pk_name = ''$PK''"

text \<open>
  \<open>ndb_table_has_hidden_pk\<close>. The condition \<open>ndbcol && ndbcol->getType() == ... && ...\<close>
  is evaluated left to right: the getters are reached only when \<open>ndbcol\<close> is not null.
\<close>

definition ndb_table_has_hidden_pk :: "Table \<Rightarrow> fault + bool" where
  "ndb_table_has_hidden_pk ndbtab =
     (if Table_getNoOfPrimaryKeys ndbtab = 1 then
        (let ndbcol = Table_getColumnByName ndbtab hidden_pk_name in
         if ndbcol = None then Inr False
         else
           (case deref ndbcol of
              Inl f \<Rightarrow> Inl f
            | Inr c \<Rightarrow>
                if Column_getType c = Bigunsigned \<and>
                   Column_getLength c = 1 \<and>
                   Column_getNullable c = False \<and>
                   Column_getPrimaryKey c = True \<and>
                   Column_getAutoIncrement c = True \<and>
                   Column_getDefaultValue c = None
                then Inr True
                else Inr False))
      else Inr False)"

section \<open>The value packer\<close>

text \<open>
  Modelled from the spec: \<open>int2store\<close> of \<open>my_byteorder.h\<close> is not part of the verified
  source. The spec gives the medium-variable prefix as a 2-byte little-endian length: the
  low byte at offset 0, the high byte at offset 1.
\<close>

definition int2store :: "byte list \<Rightarrow> 16 word \<Rightarrow> byte list" where
  "int2store T A = T[0 := ucast A, 1 := ucast (drop_bit 8 A)]"

text \<open>
  \<open>memcpy(dest + off, src, n)\<close> on byte lists. The copy is defined when the \<open>n\<close> bytes lie
  inside the destination object and the source object has \<open>n\<close> bytes to read; C gives no
  meaning to any other call.
\<close>

definition memcpy :: "byte list \<Rightarrow> nat \<Rightarrow> byte list \<Rightarrow> nat \<Rightarrow> fault + byte list" where
  "memcpy dest off src n =
     (if length dest < off + n \<or> length src < n then Inl OutOfBounds
      else Inr (take off dest @ take n src @ drop (off + n) dest))"

text \<open>
  \<open>ndb_pack_varchar\<close>. \<open>NDEBUG\<close> is the build: with it, \<open>assert\<close> expands to nothing.
  \<open>column_index\<close> is an \<open>unsigned\<close>, cast to \<open>int\<close> for the lookup; \<open>buf\<close> is the
  \<open>char[512]\<close> of the caller, \<open>sizeof(buf)\<close> is 512; \<open>str\<close> is the object the source
  pointer points into and \<open>sz\<close> the \<open>size_t\<close> passed with it. \<open>(uchar)sz\<close> and
  \<open>(uint16)sz\<close> keep the low 8 and 16 bits, which is what \<open>of_nat\<close> into a word does.
  The function returns nothing; the model returns the buffer after the call.
\<close>

definition ndb_pack_varchar ::
  "bool \<Rightarrow> Table \<Rightarrow> 32 word \<Rightarrow> byte list \<Rightarrow> byte list \<Rightarrow> nat \<Rightarrow> fault + byte list" where
  "ndb_pack_varchar NDEBUG ndbtab column_index buf str sz =
     (case deref (Table_getColumn ndbtab (sint column_index)) of
        Inl f \<Rightarrow> Inl f
      | Inr col \<Rightarrow>
          if \<not> NDEBUG \<and> \<not> (Column_getLength col \<le> 512) then Inl AssertionFailed
          else
            (case Column_getArrayType col of
               ArrayTypeFixed \<Rightarrow> memcpy buf 0 str sz
             | ArrayTypeShortVar \<Rightarrow> memcpy (buf[0 := of_nat sz]) 1 str sz
             | ArrayTypeMediumVar \<Rightarrow> memcpy (int2store buf (of_nat sz)) 2 str sz))"

section \<open>The extra metadata version\<close>

text \<open>\<open>ndb_get_extra_metadata_version\<close>; the unpacked bytes are freed and not returned.\<close>

definition ndb_get_extra_metadata_version :: "Table \<Rightarrow> 32 word" where
  "ndb_get_extra_metadata_version ndbtab =
     (case Table_getExtraMetadata ndbtab of
        (get_result, version, unpacked_data) \<Rightarrow>
          if get_result \<noteq> 0 then 0 else version)"

section \<open>Tablespace name with fallback\<close>

definition ndb_dict_check_NDB_error :: "Dictionary \<Rightarrow> bool" where
  "ndb_dict_check_NDB_error dict = (ndbError_code dict \<noteq> 0)"

text \<open>
  \<open>ndb_table_tablespace_name(dict, ndbtab)\<close>, the overload that asks the dictionary.
  The handle is returned with the name, since \<open>getTablespace\<close> changes its error code.
\<close>

definition ndb_table_tablespace_name :: "Dictionary \<Rightarrow> Table \<Rightarrow> string \<times> Dictionary" where
  "ndb_table_tablespace_name dict ndbtab =
     (let tablespace_name = Table_getTablespaceName ndbtab in
      if tablespace_name = [] then
        (case Table_getTablespace ndbtab of
           None \<Rightarrow> (tablespace_name, dict)
         | Some tablespace_id \<Rightarrow>
             (case Dictionary_getTablespace dict tablespace_id of
                (ts, dict') \<Rightarrow>
                  if \<not> ndb_dict_check_NDB_error dict'
                  then (Tablespace_getName ts, dict')
                  else (tablespace_name, dict')))
      else (tablespace_name, dict))"

section \<open>Dictionary listing queries\<close>

text \<open>
  Each function takes the output collection of the caller and returns the flag with the
  collection after the call. A \<open>std::unordered_set<std::string>\<close> is a \<open>string set\<close>,
  a \<open>std::vector<std::string>\<close> a \<open>string list\<close>. The \<open>for\<close> loop over
  \<open>list.elements[0 .. list.count - 1]\<close> is a recursion over the list of elements.
\<close>

fun logfile_group_names_loop :: "Element list \<Rightarrow> string set \<Rightarrow> string set" where
  "logfile_group_names_loop [] lfg_names = lfg_names"
| "logfile_group_names_loop (elmt # rest) lfg_names =
     logfile_group_names_loop rest (insert (elmt_name elmt) lfg_names)"

definition ndb_get_logfile_group_names :: "Dictionary \<Rightarrow> string set \<Rightarrow> bool \<times> string set" where
  "ndb_get_logfile_group_names dict lfg_names =
     (case Dictionary_listObjects dict LogfileGroup of
        (rc, lfg_list) \<Rightarrow>
          if rc \<noteq> 0 then (False, lfg_names)
          else (True, logfile_group_names_loop lfg_list lfg_names))"

fun tablespace_names_loop :: "Element list \<Rightarrow> string set \<Rightarrow> string set" where
  "tablespace_names_loop [] tablespace_names = tablespace_names"
| "tablespace_names_loop (elmt # rest) tablespace_names =
     tablespace_names_loop rest (insert (elmt_name elmt) tablespace_names)"

definition ndb_get_tablespace_names :: "Dictionary \<Rightarrow> string set \<Rightarrow> bool \<times> string set" where
  "ndb_get_tablespace_names dict tablespace_names =
     (case Dictionary_listObjects dict Tablespace of
        (rc, tablespace_list) \<Rightarrow>
          if rc \<noteq> 0 then (False, tablespace_names)
          else (True, tablespace_names_loop tablespace_list tablespace_names))"

fun table_names_in_schema_loop ::
  "NameUtil \<Rightarrow> string \<Rightarrow> Element list \<Rightarrow> string set \<Rightarrow> string set" where
  "table_names_in_schema_loop nu schema_name [] table_names = table_names"
| "table_names_in_schema_loop nu schema_name (elmt # rest) table_names =
     (if schema_name \<noteq> elmt_database elmt then
        table_names_in_schema_loop nu schema_name rest table_names
      else if ndb_name_is_temp nu (elmt_name elmt) \<or>
              ndb_name_is_blob_prefix nu (elmt_name elmt) \<or>
              ndb_name_is_index_stat nu (elmt_name elmt) then
        table_names_in_schema_loop nu schema_name rest table_names
      else if elmt_state elmt = StateOnline \<or>
              elmt_state elmt = ObsoleteStateBackup \<or>
              elmt_state elmt = StateBuilding then
        table_names_in_schema_loop nu schema_name rest (insert (elmt_name elmt) table_names)
      else
        table_names_in_schema_loop nu schema_name rest table_names)"

definition ndb_get_table_names_in_schema ::
  "NameUtil \<Rightarrow> Dictionary \<Rightarrow> string \<Rightarrow> string set \<Rightarrow> bool \<times> string set" where
  "ndb_get_table_names_in_schema nu dict schema_name table_names =
     (case Dictionary_listObjects dict UserTable of
        (rc, list) \<Rightarrow>
          if rc \<noteq> 0 then (False, table_names)
          else (True, table_names_in_schema_loop nu schema_name list table_names))"

text \<open>
  \<open>logfile_group_name.compare(uf.getLogfileGroup()) == 0\<close> holds exactly when the two
  strings are the same bytes. The node argument \<open>-1\<close> is converted to \<open>Uint32\<close>.
\<close>

fun undofile_names_loop ::
  "Dictionary \<Rightarrow> string \<Rightarrow> Element list \<Rightarrow> string list \<Rightarrow> string list" where
  "undofile_names_loop dict logfile_group_name [] undofile_names = undofile_names"
| "undofile_names_loop dict logfile_group_name (elmt # rest) undofile_names =
     (let uf = Dictionary_getUndofile dict (- 1) (elmt_name elmt) in
      if logfile_group_name = Undofile_getLogfileGroup uf then
        undofile_names_loop dict logfile_group_name rest (undofile_names @ [elmt_name elmt])
      else
        undofile_names_loop dict logfile_group_name rest undofile_names)"

definition ndb_get_undofile_names ::
  "Dictionary \<Rightarrow> string \<Rightarrow> string list \<Rightarrow> bool \<times> string list" where
  "ndb_get_undofile_names dict logfile_group_name undofile_names =
     (case Dictionary_listObjects dict Undofile of
        (rc, undofile_list) \<Rightarrow>
          if rc \<noteq> 0 then (False, undofile_names)
          else (True, undofile_names_loop dict logfile_group_name undofile_list undofile_names))"

fun datafile_names_loop ::
  "Dictionary \<Rightarrow> string \<Rightarrow> Element list \<Rightarrow> string list \<Rightarrow> string list" where
  "datafile_names_loop dict tablespace_name [] datafile_names = datafile_names"
| "datafile_names_loop dict tablespace_name (elmt # rest) datafile_names =
     (let df = Dictionary_getDatafile dict (- 1) (elmt_name elmt) in
      if tablespace_name = Datafile_getTablespace df then
        datafile_names_loop dict tablespace_name rest (datafile_names @ [elmt_name elmt])
      else
        datafile_names_loop dict tablespace_name rest datafile_names)"

definition ndb_get_datafile_names ::
  "Dictionary \<Rightarrow> string \<Rightarrow> string list \<Rightarrow> bool \<times> string list" where
  "ndb_get_datafile_names dict tablespace_name datafile_names =
     (case Dictionary_listObjects dict Datafile of
        (rc, datafile_list) \<Rightarrow>
          if rc \<noteq> 0 then (False, datafile_names)
          else (True, datafile_names_loop dict tablespace_name datafile_list datafile_names))"

fun database_names_loop :: "NameUtil \<Rightarrow> Element list \<Rightarrow> string set \<Rightarrow> string set" where
  "database_names_loop nu [] database_names = database_names"
| "database_names_loop nu (elmt # rest) database_names =
     (if (elmt_state elmt \<noteq> StateOnline \<and> elmt_state elmt \<noteq> StateBuilding) \<or>
         ndb_name_is_temp nu (elmt_name elmt) \<or>
         ndb_name_is_blob_prefix nu (elmt_name elmt) then
        database_names_loop nu rest database_names
      else
        database_names_loop nu rest (insert (elmt_database elmt) database_names))"

definition ndb_get_database_names_in_dictionary ::
  "NameUtil \<Rightarrow> Dictionary \<Rightarrow> string set \<Rightarrow> bool \<times> string set" where
  "ndb_get_database_names_in_dictionary nu dict database_names =
     (case Dictionary_listObjects dict UserTable of
        (rc, list) \<Rightarrow>
          if rc \<noteq> 0 then (False, database_names)
          else (True, database_names_loop nu list database_names))"

section \<open>Example handles\<close>

text \<open>
  Concrete columns, tables, listings and dictionaries on which the theorems below are
  instantiated. The naming predicates of the example are prefix tests.
\<close>

definition example_table_no_columns :: Table where
  "example_table_no_columns =
     \<lparr> Table_getColumn = (\<lambda>i. None), Table_getColumnByName = (\<lambda>n. None),
       Table_getNoOfPrimaryKeys = 1, Table_getTablespaceName = [],
       Table_getTablespace = None, Table_getExtraMetadata = (0, 0, []) \<rparr>"

definition example_pack_column :: "ArrayType \<Rightarrow> int \<Rightarrow> Column" where
  "example_pack_column kind len =
     \<lparr> Column_getType = OtherColumnType 0, Column_getLength = len,
       Column_getArrayType = kind, Column_getNullable = True,
       Column_getPrimaryKey = False, Column_getAutoIncrement = False,
       Column_getDefaultValue = None \<rparr>"

definition example_pack_table :: "ArrayType \<Rightarrow> int \<Rightarrow> Table" where
  "example_pack_table kind len =
     \<lparr> Table_getColumn = (\<lambda>i. if i = 0 then Some (example_pack_column kind len) else None),
       Table_getColumnByName = (\<lambda>n. None),
       Table_getNoOfPrimaryKeys = 0, Table_getTablespaceName = [],
       Table_getTablespace = None, Table_getExtraMetadata = (0, 0, []) \<rparr>"

definition example_table_named_tablespace :: Table where
  "example_table_named_tablespace =
     \<lparr> Table_getColumn = (\<lambda>i. None), Table_getColumnByName = (\<lambda>n. None),
       Table_getNoOfPrimaryKeys = 1, Table_getTablespaceName = ''ts_direct'',
       Table_getTablespace = Some 9, Table_getExtraMetadata = (0, 2, []) \<rparr>"

definition example_table_tablespace_id :: "32 word \<Rightarrow> Table" where
  "example_table_tablespace_id tablespace_id =
     \<lparr> Table_getColumn = (\<lambda>i. None), Table_getColumnByName = (\<lambda>n. None),
       Table_getNoOfPrimaryKeys = 1, Table_getTablespaceName = [],
       Table_getTablespace = Some tablespace_id, Table_getExtraMetadata = (0, 0, []) \<rparr>"

definition example_table_metadata_failure :: Table where
  "example_table_metadata_failure =
     \<lparr> Table_getColumn = (\<lambda>i. None), Table_getColumnByName = (\<lambda>n. None),
       Table_getNoOfPrimaryKeys = 1, Table_getTablespaceName = [],
       Table_getTablespace = None, Table_getExtraMetadata = (1, 5, []) \<rparr>"

definition example_name_util :: NameUtil where
  "example_name_util =
     \<lparr> ndb_name_is_temp = (\<lambda>n. take 4 n = ''#sql''),
       ndb_name_is_blob_prefix = (\<lambda>n. take 8 n = ''NDB$BLOB''),
       ndb_name_is_index_stat = (\<lambda>n. take 14 n = ''ndb_index_stat'') \<rparr>"

definition example_table_listing :: "Element list" where
  "example_table_listing =
     [\<lparr> elmt_name = ''t1'', elmt_database = ''db1'', elmt_state = StateOnline \<rparr>,
      \<lparr> elmt_name = ''#sql-t2'', elmt_database = ''db1'', elmt_state = StateOnline \<rparr>,
      \<lparr> elmt_name = ''t3'', elmt_database = ''db2'', elmt_state = StateOnline \<rparr>,
      \<lparr> elmt_name = ''t4'', elmt_database = ''db1'', elmt_state = StateDropping \<rparr>]"

definition example_undofile_listing :: "Element list" where
  "example_undofile_listing =
     [\<lparr> elmt_name = ''uf1'', elmt_database = [], elmt_state = StateOnline \<rparr>,
      \<lparr> elmt_name = ''uf2'', elmt_database = [], elmt_state = StateOnline \<rparr>,
      \<lparr> elmt_name = ''uf3'', elmt_database = [], elmt_state = StateOnline \<rparr>,
      \<lparr> elmt_name = ''uf4'', elmt_database = [], elmt_state = StateOnline \<rparr>]"

definition example_dict :: Dictionary where
  "example_dict =
     \<lparr> ndbError_code = 0,
       service_listObjects =
         (\<lambda>ty. if ty = UserTable then (0, example_table_listing)
               else if ty = Undofile then (0, example_undofile_listing)
               else (0, [])),
       service_getTablespace =
         (\<lambda>i. if i = 7 then (\<lparr> Tablespace_getName = ''ts_alpha'' \<rparr>, 0)
              else (\<lparr> Tablespace_getName = [] \<rparr>, 723)),
       service_getUndofile =
         (\<lambda>n p. \<lparr> Undofile_getLogfileGroup =
                     (if p = ''uf1'' then ''lg_a'' else if p = ''uf2'' then ''lg_b''
                      else if p = ''uf3'' then ''LG_A'' else []) \<rparr>),
       service_getDatafile = (\<lambda>n p. \<lparr> Datafile_getTablespace = [] \<rparr>) \<rparr>"

definition example_index_stat_dict :: Dictionary where
  "example_index_stat_dict =
     example_dict \<lparr> service_listObjects :=
       (\<lambda>ty. (0, [\<lparr> elmt_name = ''ndb_index_stat_head'', elmt_database = ''mysql'',
                     elmt_state = StateOnline \<rparr>])) \<rparr>"

definition example_failing_dict :: Dictionary where
  "example_failing_dict =
     example_dict \<lparr> ndbError_code := 4009,
                    service_listObjects := (\<lambda>ty. (- 1, example_table_listing)) \<rparr>"


section \<open>Facts about the helpers\<close>

lemma memcpy_in_bounds:
  "off + length src \<le> length dest \<Longrightarrow>
   memcpy dest off src (length src) = Inr (take off dest @ src @ drop (off + length src) dest)"
  by (simp add: memcpy_def)

lemma store_prefix_byte:
  "0 < length buf \<Longrightarrow> buf[0 := p] = p # drop 1 buf"
  by (cases buf) simp_all

lemma int2store_bytes:
  "2 \<le> length T \<Longrightarrow>
   int2store T A = ucast A # ucast (drop_bit 8 A) # drop 2 T"
  by (cases T; cases "tl T") (auto simp add: int2store_def)

lemma two_byte_prefix_value:
  assumes "sz < 65536"
  shows "unat (ucast (word_of_nat sz :: 16 word) :: byte) +
         256 * unat (ucast (drop_bit 8 (word_of_nat sz :: 16 word)) :: byte) = sz"
proof -
  have lo: "unat (ucast (word_of_nat sz :: 16 word) :: byte) = sz mod 256"
    using assms by (simp add: unsigned_ucast_eq unat_of_nat take_bit_eq_mod)
  have "unat (drop_bit 8 (word_of_nat sz :: 16 word)) =
          drop_bit 8 (unat (word_of_nat sz :: 16 word))"
    by (rule unat_drop_bit_eq)
  also have "\<dots> = sz div 256"
    using assms by (simp add: unat_of_nat drop_bit_eq_div)
  finally have d: "unat (drop_bit 8 (word_of_nat sz :: 16 word)) = sz div 256" .
  have "unat (ucast (drop_bit 8 (word_of_nat sz :: 16 word)) :: byte) =
          take_bit 8 (unat (drop_bit 8 (word_of_nat sz :: 16 word)))"
    by (rule unsigned_ucast_eq [where 'c = 8, simplified])
  also have "\<dots> = (sz div 256) mod 256"
    unfolding d by (simp add: take_bit_eq_mod)
  also have "\<dots> = sz div 256"
    using assms by simp
  finally have hi: "unat (ucast (drop_bit 8 (word_of_nat sz :: 16 word)) :: byte) = sz div 256" .
  show ?thesis unfolding lo hi by simp
qed

lemma table_names_in_schema_loop_eq:
  "table_names_in_schema_loop nu schema_name es table_names =
     table_names \<union>
     set (map elmt_name
       (filter (\<lambda>e. elmt_database e = schema_name \<and>
                     \<not> ndb_name_is_temp nu (elmt_name e) \<and>
                     \<not> ndb_name_is_blob_prefix nu (elmt_name e) \<and>
                     \<not> ndb_name_is_index_stat nu (elmt_name e) \<and>
                     (elmt_state e = StateOnline \<or> elmt_state e = StateBuilding \<or>
                      elmt_state e = ObsoleteStateBackup)) es))"
  by (induction es arbitrary: table_names) auto

lemma database_names_loop_eq:
  "database_names_loop nu es database_names =
     database_names \<union>
     set (map elmt_database
       (filter (\<lambda>e. (elmt_state e = StateOnline \<or> elmt_state e = StateBuilding) \<and>
                     \<not> ndb_name_is_temp nu (elmt_name e) \<and>
                     \<not> ndb_name_is_blob_prefix nu (elmt_name e)) es))"
  by (induction es arbitrary: database_names) auto

lemma undofile_names_loop_eq:
  "undofile_names_loop dict logfile_group_name es undofile_names =
     undofile_names @
     map elmt_name
       (filter (\<lambda>e. Undofile_getLogfileGroup (Dictionary_getUndofile dict (- 1) (elmt_name e)) =
                     logfile_group_name) es)"
  by (induction es arbitrary: undofile_names) (auto simp add: Let_def)

section \<open>The layout written by the packer\<close>

text \<open>
  C1. For a column of declared length at most 512 (the capacity of the buffer, which the
  function asserts), a buffer of 512 bytes and a source of exactly \<open>sz\<close> bytes, in either
  build: a fixed column with \<open>sz\<close> at most the declared length gets the source bytes at
  offset 0 and no prefix; a short-variable column with \<open>sz + 1\<close> at most the declared
  length gets one byte of value \<open>sz mod 256\<close> at offset 0 and the source bytes at offset
  1; a medium-variable column with \<open>sz + 2\<close> at most the declared length gets two bytes
  holding \<open>sz\<close> (low byte first) at offset 0 and the source bytes at offset 2. The bytes
  of the buffer after the copy keep their values.
\<close>

theorem ndb_pack_varchar_layout:
  assumes col: "Table_getColumn ndbtab (sint column_index) = Some col"
    and len: "Column_getLength col \<le> 512"
    and buf: "length buf = 512"
    and str: "length str = sz"
  shows
    "(Column_getArrayType col = ArrayTypeFixed \<and> int sz \<le> Column_getLength col \<longrightarrow>
        ndb_pack_varchar NDEBUG ndbtab column_index buf str sz = Inr (str @ drop sz buf)) \<and>
     (Column_getArrayType col = ArrayTypeShortVar \<and> int sz + 1 \<le> Column_getLength col \<longrightarrow>
        (\<exists>p. ndb_pack_varchar NDEBUG ndbtab column_index buf str sz =
               Inr (p # str @ drop (sz + 1) buf) \<and>
             unat p = sz mod 256)) \<and>
     (Column_getArrayType col = ArrayTypeMediumVar \<and> int sz + 2 \<le> Column_getLength col \<longrightarrow>
        (\<exists>p0 p1. ndb_pack_varchar NDEBUG ndbtab column_index buf str sz =
                   Inr (p0 # p1 # str @ drop (sz + 2) buf) \<and>
                 unat p0 + 256 * unat p1 = sz))"
proof (intro conjI impI)
  assume a: "Column_getArrayType col = ArrayTypeFixed \<and> int sz \<le> Column_getLength col"
  then have "0 + length str \<le> length buf" using len buf str by simp
  from memcpy_in_bounds [OF this] a col len str
  show "ndb_pack_varchar NDEBUG ndbtab column_index buf str sz = Inr (str @ drop sz buf)"
    by (simp add: ndb_pack_varchar_def)
next
  assume a: "Column_getArrayType col = ArrayTypeShortVar \<and> int sz + 1 \<le> Column_getLength col"
  obtain b bs where b: "buf = b # bs" using buf by (cases buf) auto
  have "1 + length str \<le> length (buf[0 := word_of_nat sz])" using a len buf str by simp
  from memcpy_in_bounds [OF this] a col len str b
  have "ndb_pack_varchar NDEBUG ndbtab column_index buf str sz =
          Inr ((word_of_nat sz :: byte) # str @ drop (sz + 1) buf)"
    by (simp add: ndb_pack_varchar_def)
  moreover have "unat (word_of_nat sz :: byte) = sz mod 256"
    by (simp add: unat_of_nat)
  ultimately show "\<exists>p. ndb_pack_varchar NDEBUG ndbtab column_index buf str sz =
               Inr (p # str @ drop (sz + 1) buf) \<and> unat p = sz mod 256"
    by blast
next
  assume a: "Column_getArrayType col = ArrayTypeMediumVar \<and> int sz + 2 \<le> Column_getLength col"
  have l2: "2 \<le> length buf" using buf by simp
  have small: "sz < 65536" using a len by simp
  have "2 + length str \<le> length (int2store buf (word_of_nat sz))"
    using a len buf str by (simp add: int2store_def)
  from memcpy_in_bounds [OF this] a col len str
  have "ndb_pack_varchar NDEBUG ndbtab column_index buf str sz =
          Inr (ucast (word_of_nat sz :: 16 word) #
               ucast (drop_bit 8 (word_of_nat sz :: 16 word)) # str @ drop (sz + 2) buf)"
    by (simp add: ndb_pack_varchar_def int2store_bytes [OF l2] add.commute)
  with two_byte_prefix_value [OF small]
  show "\<exists>p0 p1. ndb_pack_varchar NDEBUG ndbtab column_index buf str sz =
                   Inr (p0 # p1 # str @ drop (sz + 2) buf) \<and>
                 unat p0 + 256 * unat p1 = sz"
    by blast
qed

text \<open>
  The theorem at a fixed and a short-variable column of declared length 10 with a source
  of 3 bytes, and at a medium-variable column of declared length 512 with 300 bytes.
\<close>

theorem ndb_pack_varchar_layout_witness:
  "ndb_pack_varchar False (example_pack_table ArrayTypeFixed 10) 0
     (replicate 512 0) [1, 2, 3] 3 = Inr ([1, 2, 3] @ replicate 509 0) \<and>
   (\<exists>p. ndb_pack_varchar False (example_pack_table ArrayTypeShortVar 10) 0
           (replicate 512 0) [1, 2, 3] 3 = Inr (p # [1, 2, 3] @ replicate 508 0) \<and>
        unat p = 3) \<and>
   (\<exists>p0 p1. ndb_pack_varchar True (example_pack_table ArrayTypeMediumVar 512) 0
               (replicate 512 0) (replicate 300 7) 300 =
               Inr (p0 # p1 # replicate 300 7 @ replicate 210 0) \<and>
            unat p0 + 256 * unat p1 = 300)"
proof -
  have col: "Table_getColumn (example_pack_table kind len) (sint (0 :: 32 word)) =
               Some (example_pack_column kind len)" for kind len
    by (simp add: example_pack_table_def)
  have len: "Column_getLength (example_pack_column kind 10) \<le> 512"
            "Column_getLength (example_pack_column kind 512) \<le> 512" for kind
    by (simp_all add: example_pack_column_def)
  have buf: "length (replicate 512 (0 :: byte)) = 512"
    by simp
  have s3: "length [1, 2, 3 :: byte] = 3" and s300: "length (replicate 300 (7 :: byte)) = 300"
    by simp_all
  show ?thesis
    using ndb_pack_varchar_layout [OF col len(1) buf s3, of ArrayTypeFixed False]
          ndb_pack_varchar_layout [OF col len(1) buf s3, of ArrayTypeShortVar False]
          ndb_pack_varchar_layout [OF col len(2) buf s300, of ArrayTypeMediumVar True]
    by (simp add: example_pack_column_def)
qed

text \<open>
  Without the bound on the declared length the statement of C1 fails: a fixed column of
  declared length 600 and a source of 513 bytes. With assertions the call stops at the
  \<open>assert\<close>; without them the copy leaves the 512 bytes of the buffer.
\<close>

theorem ndb_pack_varchar_layout_counterexample:
  "Column_getArrayType (example_pack_column ArrayTypeFixed 600) = ArrayTypeFixed \<and>
   Column_getLength (example_pack_column ArrayTypeFixed 600) = 600 \<and>
   length (replicate 513 (1 :: byte)) = 513 \<and>
   ndb_pack_varchar False (example_pack_table ArrayTypeFixed 600) 0
     (replicate 512 0) (replicate 513 1) 513 = Inl AssertionFailed \<and>
   ndb_pack_varchar True (example_pack_table ArrayTypeFixed 600) 0
     (replicate 512 0) (replicate 513 1) 513 = Inl OutOfBounds"
  by (simp add: ndb_pack_varchar_def memcpy_def example_pack_table_def example_pack_column_def)

section \<open>Database names\<close>

text \<open>
  C2. When the listing of the user tables succeeds, \<open>ndb_get_database_names_in_dictionary\<close>
  returns true and adds to the output set exactly the owning schemas of the elements whose
  state is online or building and whose name is neither a temporary name nor a blob table
  name. Index statistics names are not filtered by this function.
\<close>

theorem ndb_get_database_names_in_dictionary_exact:
  assumes "Dictionary_listObjects dict UserTable = (0, list)"
  shows "ndb_get_database_names_in_dictionary nu dict database_names =
     (True,
      database_names \<union>
      set (map elmt_database
        (filter (\<lambda>e. (elmt_state e = StateOnline \<or> elmt_state e = StateBuilding) \<and>
                     \<not> ndb_name_is_temp nu (elmt_name e) \<and>
                     \<not> ndb_name_is_blob_prefix nu (elmt_name e)) list)))"
  using assms
  by (simp add: ndb_get_database_names_in_dictionary_def database_names_loop_eq)

theorem ndb_get_database_names_in_dictionary_exact_witness:
  "Dictionary_listObjects example_dict UserTable = (0, example_table_listing) \<and>
   ndb_get_database_names_in_dictionary example_name_util example_dict {''db0''} =
     (True, {''db0'', ''db1'', ''db2''})"
proof -
  have l: "Dictionary_listObjects example_dict UserTable = (0, example_table_listing)"
    by (simp add: Dictionary_listObjects_def example_dict_def)
  show ?thesis
    using ndb_get_database_names_in_dictionary_exact
            [OF l, of example_name_util "{''db0''}"] l
    by (auto simp add: example_table_listing_def example_name_util_def)
qed

text \<open>
  A listing whose only element is an online table with an index statistics name: its
  schema is inserted, where C2 as stated excludes it.
\<close>

theorem ndb_get_database_names_counterexample:
  "Dictionary_listObjects example_index_stat_dict UserTable =
     (0, [\<lparr> elmt_name = ''ndb_index_stat_head'', elmt_database = ''mysql'',
            elmt_state = StateOnline \<rparr>]) \<and>
   ndb_name_is_index_stat example_name_util ''ndb_index_stat_head'' \<and>
   ndb_get_database_names_in_dictionary example_name_util example_index_stat_dict {} =
     (True, {''mysql''})"
  by (simp add: ndb_get_database_names_in_dictionary_def Dictionary_listObjects_def
      example_index_stat_dict_def example_name_util_def)

section \<open>Table names in a schema\<close>

text \<open>
  C3. When the listing of the user tables succeeds, \<open>ndb_get_table_names_in_schema\<close>
  returns true and adds to the output set exactly the names of the elements whose owning
  schema equals the target, whose name is not a temporary, blob table or index statistics
  name, and whose state is online, building or the obsolete backup state.
\<close>

theorem ndb_get_table_names_in_schema_exact:
  assumes "Dictionary_listObjects dict UserTable = (0, list)"
  shows "ndb_get_table_names_in_schema nu dict schema_name table_names =
     (True,
      table_names \<union>
      set (map elmt_name
        (filter (\<lambda>e. elmt_database e = schema_name \<and>
                     \<not> ndb_name_is_temp nu (elmt_name e) \<and>
                     \<not> ndb_name_is_blob_prefix nu (elmt_name e) \<and>
                     \<not> ndb_name_is_index_stat nu (elmt_name e) \<and>
                     (elmt_state e = StateOnline \<or> elmt_state e = StateBuilding \<or>
                      elmt_state e = ObsoleteStateBackup)) list)))"
  using assms
  by (simp add: ndb_get_table_names_in_schema_def table_names_in_schema_loop_eq)

theorem ndb_get_table_names_in_schema_exact_witness:
  "Dictionary_listObjects example_dict UserTable = (0, example_table_listing) \<and>
   ndb_get_table_names_in_schema example_name_util example_dict ''db1'' {} = (True, {''t1''})"
proof -
  have l: "Dictionary_listObjects example_dict UserTable = (0, example_table_listing)"
    by (simp add: Dictionary_listObjects_def example_dict_def)
  show ?thesis
    using ndb_get_table_names_in_schema_exact [OF l, of example_name_util "''db1''" "{}"] l
    by (simp add: example_table_listing_def example_name_util_def)
qed

section \<open>The hidden primary key\<close>

text \<open>
  C4. \<open>ndb_table_has_hidden_pk\<close> answers true exactly when the table reports one primary
  key column and the column named \<open>$PK\<close> exists and is of type Bigunsigned, of length 1,
  not nullable, a primary key, auto-incremented and without default value. Since the
  result is the conjunction itself, negating any single condition makes it false.
\<close>

theorem ndb_table_has_hidden_pk_iff:
  "ndb_table_has_hidden_pk ndbtab =
     Inr (Table_getNoOfPrimaryKeys ndbtab = 1 \<and>
          (\<exists>c. Table_getColumnByName ndbtab ''$PK'' = Some c \<and>
               Column_getType c = Bigunsigned \<and>
               Column_getLength c = 1 \<and>
               \<not> Column_getNullable c \<and>
               Column_getPrimaryKey c \<and>
               Column_getAutoIncrement c \<and>
               Column_getDefaultValue c = None))"
  by (cases "Table_getColumnByName ndbtab ''$PK''")
     (simp_all add: ndb_table_has_hidden_pk_def hidden_pk_name_def)

text \<open>
  C10. A table that reports one primary key column but has no column named \<open>$PK\<close>:
  the lookup gives the null pointer, the guard \<open>ndbcol &&\<close> stops the evaluation, and the
  result is false, not a null dereference.
\<close>

theorem ndb_table_has_hidden_pk_no_column:
  assumes "Table_getNoOfPrimaryKeys ndbtab = 1"
    and "Table_getColumnByName ndbtab ''$PK'' = None"
  shows "ndb_table_has_hidden_pk ndbtab = Inr False"
  using assms by (simp add: ndb_table_has_hidden_pk_def hidden_pk_name_def)

theorem ndb_table_has_hidden_pk_no_column_witness:
  "Table_getNoOfPrimaryKeys example_table_no_columns = 1 \<and>
   Table_getColumnByName example_table_no_columns ''$PK'' = None \<and>
   ndb_table_has_hidden_pk example_table_no_columns = Inr False"
proof -
  have pk: "Table_getNoOfPrimaryKeys example_table_no_columns = 1"
    by (simp add: example_table_no_columns_def)
  have col: "Table_getColumnByName example_table_no_columns ''$PK'' = None"
    by (simp add: example_table_no_columns_def)
  from ndb_table_has_hidden_pk_no_column [OF pk col] pk col show ?thesis
    by simp
qed

section \<open>A failed listing request\<close>

text \<open>
  C5. For each of the six listing queries: when \<open>listObjects\<close> returns a nonzero code,
  the query returns false and the output collection is the one the caller passed.
\<close>

theorem listing_failure_leaves_output_untouched:
  "(fst (Dictionary_listObjects dict LogfileGroup) \<noteq> 0 \<longrightarrow>
      ndb_get_logfile_group_names dict lfg_names = (False, lfg_names)) \<and>
   (fst (Dictionary_listObjects dict Tablespace) \<noteq> 0 \<longrightarrow>
      ndb_get_tablespace_names dict tablespace_names = (False, tablespace_names)) \<and>
   (fst (Dictionary_listObjects dict UserTable) \<noteq> 0 \<longrightarrow>
      ndb_get_table_names_in_schema nu dict schema_name table_names = (False, table_names)) \<and>
   (fst (Dictionary_listObjects dict Undofile) \<noteq> 0 \<longrightarrow>
      ndb_get_undofile_names dict logfile_group_name undofile_names = (False, undofile_names)) \<and>
   (fst (Dictionary_listObjects dict Datafile) \<noteq> 0 \<longrightarrow>
      ndb_get_datafile_names dict tablespace_name datafile_names = (False, datafile_names)) \<and>
   (fst (Dictionary_listObjects dict UserTable) \<noteq> 0 \<longrightarrow>
      ndb_get_database_names_in_dictionary nu dict database_names = (False, database_names))"
  by (simp add: ndb_get_logfile_group_names_def ndb_get_tablespace_names_def
      ndb_get_table_names_in_schema_def ndb_get_undofile_names_def
      ndb_get_datafile_names_def ndb_get_database_names_in_dictionary_def
      split: prod.splits)

theorem listing_failure_leaves_output_untouched_witness:
  "fst (Dictionary_listObjects example_failing_dict LogfileGroup) \<noteq> 0 \<and>
   fst (Dictionary_listObjects example_failing_dict Tablespace) \<noteq> 0 \<and>
   fst (Dictionary_listObjects example_failing_dict UserTable) \<noteq> 0 \<and>
   fst (Dictionary_listObjects example_failing_dict Undofile) \<noteq> 0 \<and>
   fst (Dictionary_listObjects example_failing_dict Datafile) \<noteq> 0 \<and>
   ndb_get_logfile_group_names example_failing_dict {''lg_old''} = (False, {''lg_old''}) \<and>
   ndb_get_tablespace_names example_failing_dict {''ts_old''} = (False, {''ts_old''}) \<and>
   ndb_get_table_names_in_schema example_name_util example_failing_dict ''db1'' {''t_old''} =
     (False, {''t_old''}) \<and>
   ndb_get_undofile_names example_failing_dict ''lg_a'' [''uf_old''] = (False, [''uf_old'']) \<and>
   ndb_get_datafile_names example_failing_dict ''ts_a'' [''df_old''] = (False, [''df_old'']) \<and>
   ndb_get_database_names_in_dictionary example_name_util example_failing_dict {''db_old''} =
     (False, {''db_old''})"
proof -
  have f: "fst (Dictionary_listObjects example_failing_dict ty) \<noteq> 0" for ty
    by (simp add: Dictionary_listObjects_def example_failing_dict_def)
  show ?thesis
    using listing_failure_leaves_output_untouched
            [of example_failing_dict "{''lg_old''}" "{''ts_old''}" example_name_util
                "''db1''" "{''t_old''}" "''lg_a''" "[''uf_old'']" "''ts_a''" "[''df_old'']"
                "{''db_old''}"]
          f
    by simp
qed

section \<open>The tablespace name and its fallback\<close>

text \<open>
  C6. \<open>ndb_table_tablespace_name(dict, ndbtab)\<close>: a non-empty direct name is returned
  and the handle of the dictionary is left as it was (no query is made). With an empty
  direct name and a tablespace id, the id is resolved through the dictionary: the resolved
  name is returned when the handle reports error code 0 afterwards, the empty string when
  it reports another code. The result is always a string.
\<close>

theorem ndb_table_tablespace_name_fallback:
  "(Table_getTablespaceName ndbtab \<noteq> [] \<longrightarrow>
      ndb_table_tablespace_name dict ndbtab = (Table_getTablespaceName ndbtab, dict)) \<and>
   (Table_getTablespaceName ndbtab = [] \<and> Table_getTablespace ndbtab = Some tablespace_id \<longrightarrow>
      (snd (service_getTablespace dict tablespace_id) = 0 \<longrightarrow>
         fst (ndb_table_tablespace_name dict ndbtab) =
           Tablespace_getName (fst (service_getTablespace dict tablespace_id))) \<and>
      (snd (service_getTablespace dict tablespace_id) \<noteq> 0 \<longrightarrow>
         fst (ndb_table_tablespace_name dict ndbtab) = []))"
  by (auto simp add: ndb_table_tablespace_name_def Dictionary_getTablespace_def
      ndb_dict_check_NDB_error_def split: prod.splits)

theorem ndb_table_tablespace_name_fallback_witness:
  "Table_getTablespaceName example_table_named_tablespace \<noteq> [] \<and>
   ndb_table_tablespace_name example_dict example_table_named_tablespace =
     (''ts_direct'', example_dict) \<and>
   Table_getTablespaceName (example_table_tablespace_id 7) = [] \<and>
   Table_getTablespace (example_table_tablespace_id 7) = Some 7 \<and>
   snd (service_getTablespace example_dict 7) = 0 \<and>
   fst (ndb_table_tablespace_name example_dict (example_table_tablespace_id 7)) = ''ts_alpha'' \<and>
   Table_getTablespaceName (example_table_tablespace_id 8) = [] \<and>
   Table_getTablespace (example_table_tablespace_id 8) = Some 8 \<and>
   snd (service_getTablespace example_dict 8) \<noteq> 0 \<and>
   fst (ndb_table_tablespace_name example_dict (example_table_tablespace_id 8)) = []"
  using ndb_table_tablespace_name_fallback
          [of example_table_named_tablespace example_dict 9]
        ndb_table_tablespace_name_fallback [of "example_table_tablespace_id 7" example_dict 7]
        ndb_table_tablespace_name_fallback [of "example_table_tablespace_id 8" example_dict 8]
  by (simp add: example_table_named_tablespace_def example_table_tablespace_id_def
      example_dict_def)

section \<open>Undofile names of a logfile group\<close>

text \<open>
  C7. When the listing of the undofiles succeeds, \<open>ndb_get_undofile_names\<close> returns true
  and appends, in listing order, the names of exactly those undofiles whose logfile group,
  as resolved by \<open>getUndofile\<close>, is the same byte string as the target. The comparison is
  the only test: a group name that differs from the target, in case or otherwise, is a
  non-match and not a failure, and an empty group name is a non-match for every target
  that is not empty and a match for the empty target.
\<close>

theorem ndb_get_undofile_names_exact:
  assumes "Dictionary_listObjects dict Undofile = (0, undofile_list)"
  shows "ndb_get_undofile_names dict logfile_group_name undofile_names =
     (True,
      undofile_names @
      map elmt_name
        (filter (\<lambda>e. Undofile_getLogfileGroup (Dictionary_getUndofile dict (- 1) (elmt_name e)) =
                      logfile_group_name) undofile_list))"
  using assms by (simp add: ndb_get_undofile_names_def undofile_names_loop_eq)

text \<open>
  Undofiles of the groups \<open>lg_a\<close>, \<open>lg_b\<close>, \<open>LG_A\<close> and of the empty group: the target
  \<open>lg_a\<close> selects the first only, and the target \<open>lg_c\<close> selects none.
\<close>

theorem ndb_get_undofile_names_exact_witness:
  "Dictionary_listObjects example_dict Undofile = (0, example_undofile_listing) \<and>
   map (\<lambda>e. Undofile_getLogfileGroup (Dictionary_getUndofile example_dict (- 1) (elmt_name e)))
     example_undofile_listing = [''lg_a'', ''lg_b'', ''LG_A'', []] \<and>
   ndb_get_undofile_names example_dict ''lg_a'' [] = (True, [''uf1'']) \<and>
   ndb_get_undofile_names example_dict ''lg_c'' [''uf0''] = (True, [''uf0''])"
proof -
  have l: "Dictionary_listObjects example_dict Undofile = (0, example_undofile_listing)"
    by (simp add: Dictionary_listObjects_def example_dict_def)
  show ?thesis
    using ndb_get_undofile_names_exact [OF l, of "''lg_a''" "[]"]
          ndb_get_undofile_names_exact [OF l, of "''lg_c''" "[''uf0'']"] l
    by (simp add: example_undofile_listing_def Dictionary_getUndofile_def example_dict_def)
qed

text \<open>
  The same listing with the empty target: the undofile whose group resolves to the empty
  string is appended, where C7 as stated treats an empty group name as a non-match.
\<close>

theorem ndb_get_undofile_names_empty_counterexample:
  "Dictionary_listObjects example_dict Undofile = (0, example_undofile_listing) \<and>
   Undofile_getLogfileGroup (Dictionary_getUndofile example_dict (- 1) ''uf4'') = [] \<and>
   ndb_get_undofile_names example_dict [] [] = (True, [''uf4''])"
  by (simp add: ndb_get_undofile_names_def Dictionary_listObjects_def Dictionary_getUndofile_def
      example_dict_def example_undofile_listing_def)

section \<open>The sentinel of the extra metadata version\<close>

text \<open>
  C8. \<open>ndb_get_extra_metadata_version\<close> returns 0 when \<open>getExtraMetadata\<close> gives a
  nonzero result code and the retrieved version otherwise. Its result is a plain number:
  a table whose retrieval fails and a table whose retrieval succeeds with version 0 give
  the same result.
\<close>

theorem ndb_get_extra_metadata_version_sentinel:
  "(fst (Table_getExtraMetadata ndbtab) \<noteq> 0 \<longrightarrow> ndb_get_extra_metadata_version ndbtab = 0) \<and>
   (fst (Table_getExtraMetadata ndbtab) = 0 \<longrightarrow>
      ndb_get_extra_metadata_version ndbtab = fst (snd (Table_getExtraMetadata ndbtab))) \<and>
   (fst (Table_getExtraMetadata ndbtab) \<noteq> 0 \<and>
    fst (Table_getExtraMetadata ndbtab') = 0 \<and>
    fst (snd (Table_getExtraMetadata ndbtab')) = 0 \<longrightarrow>
      ndb_get_extra_metadata_version ndbtab = ndb_get_extra_metadata_version ndbtab')"
  by (simp add: ndb_get_extra_metadata_version_def split: prod.splits)

theorem ndb_get_extra_metadata_version_sentinel_witness:
  "fst (Table_getExtraMetadata example_table_metadata_failure) \<noteq> 0 \<and>
   ndb_get_extra_metadata_version example_table_metadata_failure = 0 \<and>
   fst (Table_getExtraMetadata example_table_named_tablespace) = 0 \<and>
   ndb_get_extra_metadata_version example_table_named_tablespace = 2 \<and>
   fst (Table_getExtraMetadata (example_table_tablespace_id 7)) = 0 \<and>
   fst (snd (Table_getExtraMetadata (example_table_tablespace_id 7))) = 0 \<and>
   ndb_get_extra_metadata_version example_table_metadata_failure =
     ndb_get_extra_metadata_version (example_table_tablespace_id 7)"
  using ndb_get_extra_metadata_version_sentinel
          [of example_table_metadata_failure "example_table_tablespace_id 7"]
        ndb_get_extra_metadata_version_sentinel
          [of example_table_named_tablespace "example_table_tablespace_id 7"]
  by (auto simp add: example_table_metadata_failure_def example_table_named_tablespace_def
      example_table_tablespace_id_def)

section \<open>The declared length is checked by the assertion only\<close>

text \<open>
  C9. For an existing column, a buffer of 512 bytes and a source of \<open>sz\<close> bytes. In a
  build with \<open>NDEBUG\<close> the declared length is never read: whatever it is, the packer goes
  on to the write of the storage kind, which puts the prefix of the kind and the \<open>sz\<close>
  source bytes at the start of the buffer when they fit in its 512 bytes and leaves the
  buffer when they do not; it never stops at the assertion. In a build with assertions the
  \<open>assert\<close> is the only check: it stops every call whose declared length is above 512,
  and every other call does what the build with \<open>NDEBUG\<close> does.
\<close>

theorem ndb_pack_varchar_unchecked_write:
  assumes col: "Table_getColumn ndbtab (sint column_index) = Some col"
    and buf: "length buf = 512"
    and str: "length str = sz"
  shows
    "ndb_pack_varchar True ndbtab column_index buf str sz =
       (case Column_getArrayType col of
          ArrayTypeFixed \<Rightarrow>
            if 512 < sz then Inl OutOfBounds else Inr (str @ drop sz buf)
        | ArrayTypeShortVar \<Rightarrow>
            if 512 < sz + 1 then Inl OutOfBounds
            else Inr ((word_of_nat sz :: byte) # str @ drop (sz + 1) buf)
        | ArrayTypeMediumVar \<Rightarrow>
            if 512 < sz + 2 then Inl OutOfBounds
            else Inr (ucast (word_of_nat sz :: 16 word) #
                      ucast (drop_bit 8 (word_of_nat sz :: 16 word)) #
                      str @ drop (sz + 2) buf)) \<and>
     ndb_pack_varchar False ndbtab column_index buf str sz =
       (if 512 < Column_getLength col then Inl AssertionFailed
        else ndb_pack_varchar True ndbtab column_index buf str sz)"
proof
  have l0: "0 < length buf" and l2: "2 \<le> length buf"
    using buf by simp_all
  show "ndb_pack_varchar True ndbtab column_index buf str sz =
       (case Column_getArrayType col of
          ArrayTypeFixed \<Rightarrow>
            if 512 < sz then Inl OutOfBounds else Inr (str @ drop sz buf)
        | ArrayTypeShortVar \<Rightarrow>
            if 512 < sz + 1 then Inl OutOfBounds
            else Inr ((word_of_nat sz :: byte) # str @ drop (sz + 1) buf)
        | ArrayTypeMediumVar \<Rightarrow>
            if 512 < sz + 2 then Inl OutOfBounds
            else Inr (ucast (word_of_nat sz :: 16 word) #
                      ucast (drop_bit 8 (word_of_nat sz :: 16 word)) #
                      str @ drop (sz + 2) buf))"
  proof (cases "Column_getArrayType col")
    case ArrayTypeFixed
    with col buf str show ?thesis
      by (simp add: ndb_pack_varchar_def memcpy_def)
  next
    case ArrayTypeShortVar
    with col buf str show ?thesis
      by (simp add: ndb_pack_varchar_def memcpy_def store_prefix_byte [OF l0])
  next
    case ArrayTypeMediumVar
    with col buf str show ?thesis
      by (simp add: ndb_pack_varchar_def memcpy_def int2store_bytes [OF l2] add.commute)
  qed
  show "ndb_pack_varchar False ndbtab column_index buf str sz =
       (if 512 < Column_getLength col then Inl AssertionFailed
        else ndb_pack_varchar True ndbtab column_index buf str sz)"
    using col by (simp add: ndb_pack_varchar_def)
qed

text \<open>
  The theorem at a short-variable column of declared length 600, at a fixed column of
  declared length 2 with a source of 3 bytes, and at a medium-variable column with a
  source of 511 bytes, whose prefix and bytes do not fit.
\<close>

theorem ndb_pack_varchar_unchecked_write_witness:
  "\<not> Column_getLength (example_pack_column ArrayTypeShortVar 600) \<le> 512 \<and>
   ndb_pack_varchar True (example_pack_table ArrayTypeShortVar 600) 0
     (replicate 512 0) [1, 2, 3] 3 = Inr (3 # [1, 2, 3] @ replicate 508 0) \<and>
   ndb_pack_varchar False (example_pack_table ArrayTypeShortVar 600) 0
     (replicate 512 0) [1, 2, 3] 3 = Inl AssertionFailed \<and>
   int (length [1, 2, 3 :: byte]) > Column_getLength (example_pack_column ArrayTypeFixed 2) \<and>
   ndb_pack_varchar True (example_pack_table ArrayTypeFixed 2) 0
     (replicate 512 0) [1, 2, 3] 3 = Inr ([1, 2, 3] @ replicate 509 0) \<and>
   ndb_pack_varchar False (example_pack_table ArrayTypeFixed 2) 0
     (replicate 512 0) [1, 2, 3] 3 = Inr ([1, 2, 3] @ replicate 509 0) \<and>
   ndb_pack_varchar True (example_pack_table ArrayTypeMediumVar 600) 0
     (replicate 512 0) (replicate 511 7) 511 = Inl OutOfBounds"
proof -
  have col: "Table_getColumn (example_pack_table kind len) (sint (0 :: 32 word)) =
               Some (example_pack_column kind len)" for kind len
    by (simp add: example_pack_table_def)
  have buf: "length (replicate 512 (0 :: byte)) = 512"
    by simp
  have s3: "length [1, 2, 3 :: byte] = 3" and s511: "length (replicate 511 (7 :: byte)) = 511"
    by simp_all
  show ?thesis
    using ndb_pack_varchar_unchecked_write [OF col buf s3, of ArrayTypeShortVar 600]
          ndb_pack_varchar_unchecked_write [OF col buf s3, of ArrayTypeFixed 2]
          ndb_pack_varchar_unchecked_write [OF col buf s511, of ArrayTypeMediumVar 600]
    by (simp add: example_pack_column_def)
qed

text \<open>
  In a build with assertions the declared length is checked: a column of declared length
  513 stops the call at the \<open>assert\<close>, even for an empty source, where the build with
  \<open>NDEBUG\<close> returns the buffer.
\<close>

theorem ndb_pack_varchar_assert_counterexample:
  "Column_getLength (example_pack_column ArrayTypeFixed 513) = 513 \<and>
   ndb_pack_varchar False (example_pack_table ArrayTypeFixed 513) 0
     (replicate 512 0) [] 0 = Inl AssertionFailed \<and>
   ndb_pack_varchar True (example_pack_table ArrayTypeFixed 513) 0
     (replicate 512 0) [] 0 = Inr (replicate 512 0)"
  by (simp add: ndb_pack_varchar_def memcpy_def example_pack_table_def example_pack_column_def)

end
